theory Spec2Isabelle
  imports Main "HOL-Library.Multiset"
begin

section \<open>Data model (types)\<close>

text \<open>
  A timestamp field of a Board, List or Card is typed \<^verbatim>\<open>Date\<close> in the source, but at run
  time it holds whatever the JSON round trip left there. The values that occur:
  \<^item> \<open>DateObj t\<close>: a \<^verbatim>\<open>Date\<close> object with time value \<open>t\<close> (milliseconds since the epoch);
  \<^item> \<open>InvalidDate\<close>: the \<^verbatim>\<open>Date\<close> object whose time value is NaN;
  \<^item> \<open>IsoString t\<close>: the string \<^verbatim>\<open>new Date(t).toISOString()\<close>, which
    \<^verbatim>\<open>new Date(...)\<close> parses back to the time value \<open>t\<close>;
  \<^item> \<open>Undefined\<close>: the property is absent (or \<^verbatim>\<open>undefined\<close>);
  \<^item> \<open>Null\<close>: JSON \<^verbatim>\<open>null\<close>.
\<close>

datatype timestamp = DateObj int | InvalidDate | IsoString int | Undefined | Null

text \<open>
  The fields shared by the three interfaces; \<open>ident\<close> is the source's \<^verbatim>\<open>id\<close>.
  A List has no \<^verbatim>\<open>updatedAt\<close> property: its \<open>updatedAt\<close> is \<open>Undefined\<close>.
\<close>

record entity =
  ident :: string
  title :: string
  createdAt :: timestamp
  updatedAt :: timestamp

record board = entity +
  description :: string
  color :: string

record placed = entity +
  position :: nat

record tlist = placed +
  boardId :: string

record card = placed +
  listId :: string
  details :: string

record loading_state =
  loading_boards :: bool
  saving :: bool
  error :: "string option"

text \<open>
  The value of an own property of \<^verbatim>\<open>state.lists\<close> or \<^verbatim>\<open>state.cards\<close>: an array, or
  \<^verbatim>\<open>undefined\<close> (what \<^verbatim>\<open>{ ...state.lists, [id]: undefined }\<close> stores).
\<close>

datatype 'a slot = Arr "'a list" | Undef

text \<open>
  The part of \<^verbatim>\<open>AppState\<close> that the store actions below read or write
  (\<^verbatim>\<open>dragState\<close> and \<^verbatim>\<open>modal\<close> are touched by the UI setters only). A
  \<^verbatim>\<open>Record<string, T[]>\<close> is the map of its own properties.
\<close>

record app_state =
  boards :: "board list"
  lists :: "string \<rightharpoonup> tlist slot"
  cards :: "string \<rightharpoonup> card slot"
  currentBoard :: "string option"
  loading :: loading_state

section \<open>The browser: localStorage and console\<close>

text \<open>
  The values that \<^verbatim>\<open>getData<T>\<close> and \<^verbatim>\<open>setData<T>\<close> are instantiated at:
  \<^verbatim>\<open>Board[]\<close>, \<^verbatim>\<open>Record<string, List[]>\<close> and \<^verbatim>\<open>Record<string, Card[]>\<close>; a
  stored Record is the map of its own properties, each an array.
\<close>

datatype collection =
  JBoards "board list"
| JLists "string \<rightharpoonup> tlist list"
| JCards "string \<rightharpoonup> card list"

text \<open>
  The text of a stored item: the empty string; the probe's \<^verbatim>\<open>'test'\<close>; a damaged text,
  one that \<^verbatim>\<open>JSON.parse\<close> refuses; or \<open>Json c\<close>, the JSON text of the collection
  \<open>c\<close>. Texts that are JSON of another shape are outside the model.
\<close>

datatype item_text = EmptyText | TestText | Damaged | Json collection

text \<open>
  \<open>TypeError what\<close>: \<open>what\<close> names the expression that is not a function, or not
  iterable. \<open>Error m\<close> is \<^verbatim>\<open>new Error(m)\<close>.
\<close>

datatype exn = SecurityError | QuotaExceededError | SyntaxError | TypeError string | Error string

text \<open>\<^verbatim>\<open>console.warn(msg)\<close> and \<^verbatim>\<open>console.error(msg, error)\<close>.\<close>

datatype log_entry = Warn string | Err string exn

text \<open>
  \<open>disabled\<close>: every access to localStorage throws. \<open>rejects k v\<close>: the browser refuses
  \<^verbatim>\<open>setItem(k, v)\<close> for lack of quota. \<open>describe e\<close>: the \<^verbatim>\<open>message\<close> that the
  engine gives a built-in error.
\<close>

record browser =
  items :: "string \<rightharpoonup> item_text"
  disabled :: bool
  rejects :: "string \<Rightarrow> item_text \<Rightarrow> bool"
  describe :: "exn \<Rightarrow> string"
  console :: "log_entry list"

definition getItem :: "browser \<Rightarrow> string \<Rightarrow> exn + item_text option" where
  "getItem w key = (if disabled w then Inl SecurityError else Inr (items w key))"

definition setItem :: "browser \<Rightarrow> string \<Rightarrow> item_text \<Rightarrow> exn + browser" where
  "setItem w key v =
     (if disabled w then Inl SecurityError
      else if rejects w key v then Inl QuotaExceededError
      else Inr (w\<lparr>items := (items w)(key \<mapsto> v)\<rparr>))"

definition removeItem :: "browser \<Rightarrow> string \<Rightarrow> exn + browser" where
  "removeItem w key =
     (if disabled w then Inl SecurityError
      else Inr (w\<lparr>items := (items w)(key := None)\<rparr>))"

definition console_warn :: "browser \<Rightarrow> string \<Rightarrow> browser" where
  "console_warn w msg = w\<lparr>console := console w @ [Warn msg]\<rparr>"

definition console_error :: "browser \<Rightarrow> string \<Rightarrow> exn \<Rightarrow> browser" where
  "console_error w msg e = w\<lparr>console := console w @ [Err msg e]\<rparr>"

text \<open>\<^verbatim>\<open>error.message\<close>.\<close>

definition message :: "browser \<Rightarrow> exn \<Rightarrow> string" where
  "message w e = (case e of Error m \<Rightarrow> m | _ \<Rightarrow> describe w e)"

subsection \<open>JSON.stringify and JSON.parse\<close>

text \<open>
  \<^verbatim>\<open>JSON.stringify\<close> writes a Date as its ISO string, an invalid Date as
  \<^verbatim>\<open>null\<close>, and leaves an undefined property out.
\<close>

fun toJSON :: "timestamp \<Rightarrow> timestamp" where
  "toJSON (DateObj t) = IsoString t"
| "toJSON InvalidDate = Null"
| "toJSON (IsoString t) = IsoString t"
| "toJSON Undefined = Undefined"
| "toJSON Null = Null"

definition stringify_entity :: "'a entity_scheme \<Rightarrow> 'a entity_scheme" where
  "stringify_entity e =
     e\<lparr>createdAt := toJSON (createdAt e), updatedAt := toJSON (updatedAt e)\<rparr>"

definition stringify_record :: "(string \<rightharpoonup> 'a entity_scheme list) \<Rightarrow> (string \<rightharpoonup> 'a entity_scheme list)" where
  "stringify_record m = (\<lambda>k. map_option (map stringify_entity) (m k))"

fun JSON_stringify :: "collection \<Rightarrow> item_text" where
  "JSON_stringify (JBoards bs) = Json (JBoards (map stringify_entity bs))"
| "JSON_stringify (JLists m) = Json (JLists (stringify_record m))"
| "JSON_stringify (JCards m) = Json (JCards (stringify_record m))"

fun JSON_parse :: "item_text \<Rightarrow> exn + collection" where
  "JSON_parse (Json c) = Inr c"
| "JSON_parse t = Inl SyntaxError"

subsection \<open>Date construction and truthiness\<close>

fun newDate :: "timestamp \<Rightarrow> timestamp" where
  "newDate (IsoString t) = DateObj t"
| "newDate (DateObj t) = DateObj t"
| "newDate InvalidDate = InvalidDate"
| "newDate Undefined = InvalidDate"
| "newDate Null = DateObj 0"

fun truthy :: "timestamp \<Rightarrow> bool" where
  "truthy Undefined = False"
| "truthy Null = False"
| "truthy _ = True"

subsection \<open>Property access on a plain object\<close>

text \<open>
  The parsed Records, the default \<^verbatim>\<open>{}\<close> and the Records of the state are plain
  objects: for a key that is not an own property, \<^verbatim>\<open>obj[key]\<close> is the member that every
  object inherits from \<^verbatim>\<open>Object.prototype\<close> under that name, if there is one.
\<close>

definition object_prototype_keys :: "string list" where
  "object_prototype_keys =
     [''constructor'', ''__defineGetter__'', ''__defineSetter__'', ''hasOwnProperty'',
      ''__lookupGetter__'', ''__lookupSetter__'', ''isPrototypeOf'', ''propertyIsEnumerable'',
      ''toString'', ''valueOf'', ''__proto__'', ''toLocaleString'']"

text \<open>
  The value of \<^verbatim>\<open>obj[key] || []\<close>: an array (the own one, or the fresh \<^verbatim>\<open>[]\<close> when the
  lookup gives \<^verbatim>\<open>undefined\<close>), or the inherited member, which is truthy: a function, or
  for \<^verbatim>\<open>__proto__\<close> the prototype object.
\<close>

datatype 'a looked_up = Array "'a list" | Member string

definition stored_or_empty :: "(string \<rightharpoonup> 'a list) \<Rightarrow> string \<Rightarrow> 'a looked_up" where
  "stored_or_empty m key =
     (case m key of
        Some xs \<Rightarrow> Array xs
      | None \<Rightarrow> if key \<in> set object_prototype_keys then Member key else Array [])"

definition state_or_empty :: "(string \<rightharpoonup> 'a slot) \<Rightarrow> string \<Rightarrow> 'a looked_up" where
  "state_or_empty m key =
     (case m key of
        Some (Arr xs) \<Rightarrow> Array xs
      | Some Undef \<Rightarrow> Array []
      | None \<Rightarrow> if key \<in> set object_prototype_keys then Member key else Array [])"

text \<open>
  A call of an array method on such a value, \<^verbatim>\<open>x.findIndex(...)\<close>, \<^verbatim>\<open>x.filter(...)\<close>,
  \<^verbatim>\<open>x.find(...)\<close>, \<^verbatim>\<open>x.forEach(...)\<close>: no inherited member has these methods, so the
  call throws a TypeError (\<open>what\<close> is the callee as the source writes it). Likewise the
  spread \<^verbatim>\<open>[...x]\<close>: no inherited member is iterable.
\<close>

fun array_of :: "string \<Rightarrow> 'a looked_up \<Rightarrow> exn + 'a list" where
  "array_of what (Array xs) = Inr xs"
| "array_of what (Member k) = Inl (TypeError what)"

text \<open>
  \<^verbatim>\<open>x.length\<close>: the number of declared parameters when \<open>x\<close> is an inherited function.
  For \<^verbatim>\<open>__proto__\<close> the member is the prototype object, which has no \<^verbatim>\<open>length\<close>:
  the number read there is \<^verbatim>\<open>undefined\<close>, which a \<^verbatim>\<open>position: number\<close> does not
  admit; \<open>member_length\<close> gives 0.
\<close>

definition member_length :: "string \<Rightarrow> nat" where
  "member_length k =
     (if k \<in> {''__defineGetter__'', ''__defineSetter__''} then 2
      else if k \<in> {''constructor'', ''hasOwnProperty'', ''__lookupGetter__'',
                     ''__lookupSetter__'', ''isPrototypeOf'', ''propertyIsEnumerable''} then 1
      else 0)"

fun js_length :: "'a looked_up \<Rightarrow> nat" where
  "js_length (Array xs) = length xs"
| "js_length (Member k) = member_length k"

text \<open>
  The assignment \<^verbatim>\<open>obj[key] = xs\<close> on a parsed Record: it makes or replaces an own
  property, except that for \<^verbatim>\<open>__proto__\<close>, when that is not an own property, it sets
  the prototype instead, which \<^verbatim>\<open>JSON.stringify\<close> does not write.
\<close>

definition set_stored :: "(string \<rightharpoonup> 'a list) \<Rightarrow> string \<Rightarrow> 'a list \<Rightarrow> (string \<rightharpoonup> 'a list)" where
  "set_stored m key xs = (if key = ''__proto__'' \<and> m key = None then m else m(key \<mapsto> xs))"

section \<open>StorageService (services/storage.ts)\<close>

definition BOARDS :: string where "BOARDS = ''trello_boards''"
definition LISTS :: string where "LISTS = ''trello_lists''"
definition CARDS :: string where "CARDS = ''trello_cards''"
definition testKey :: string where "testKey = ''__storage_test__''"

definition isStorageAvailable :: "browser \<Rightarrow> bool \<times> browser" where
  "isStorageAvailable w =
     (case setItem w testKey TestText of
        Inl e \<Rightarrow> (False, w)
      | Inr w1 \<Rightarrow>
          (case removeItem w1 testKey of
             Inl e \<Rightarrow> (False, w1)
           | Inr w2 \<Rightarrow> (True, w2)))"

text \<open>The mapping function of \<^verbatim>\<open>getData\<close>: convert date strings back to Date objects.\<close>

definition revive :: "'a entity_scheme \<Rightarrow> 'a entity_scheme" where
  "revive item =
     item\<lparr>createdAt := newDate (createdAt item),
          updatedAt := (if truthy (updatedAt item) then newDate (updatedAt item) else Undefined)\<rparr>"

fun isArray :: "collection \<Rightarrow> bool" where
  "isArray (JBoards bs) = True"
| "isArray (JLists m) = False"
| "isArray (JCards m) = False"

fun map_revive :: "collection \<Rightarrow> collection" where
  "map_revive (JBoards bs) = JBoards (map revive bs)"
| "map_revive c = c"

definition getData :: "browser \<Rightarrow> string \<Rightarrow> collection \<Rightarrow> collection \<times> browser" where
  "getData w key defaultValue =
     (case isStorageAvailable w of
        (False, w1) \<Rightarrow> (defaultValue, console_warn w1 ''LocalStorage is not available'')
      | (True, w1) \<Rightarrow>
          (case getItem w1 key of
             Inl e \<Rightarrow>
               (defaultValue,
                console_error w1 (''Error reading from localStorage for key '' @ key @ '':'') e)
           | Inr None \<Rightarrow> (defaultValue, w1)
           | Inr (Some item) \<Rightarrow>
               if item = EmptyText then (defaultValue, w1)
               else
                 (case JSON_parse item of
                    Inl e \<Rightarrow>
                      (defaultValue,
                       console_error w1
                         (''Error reading from localStorage for key '' @ key @ '':'') e)
                  | Inr parsed \<Rightarrow>
                      (if isArray parsed then map_revive parsed else parsed, w1))))"

definition setData :: "browser \<Rightarrow> string \<Rightarrow> collection \<Rightarrow> browser" where
  "setData w key data =
     (case isStorageAvailable w of
        (False, w1) \<Rightarrow> console_warn w1 ''LocalStorage is not available''
      | (True, w1) \<Rightarrow>
          (case setItem w1 key (JSON_stringify data) of
             Inl e \<Rightarrow>
               console_error w1 (''Error writing to localStorage for key '' @ key @ '':'') e
           | Inr w2 \<Rightarrow> w2))"

text \<open>
  The casts \<^verbatim>\<open>as T\<close> of the loaders. Each key is written by \<^verbatim>\<open>setData\<close> with a
  collection of its own shape only, so the second equation of each cast is not reached
  from a store that this service has written.
\<close>

fun asBoards :: "collection \<Rightarrow> board list" where
  "asBoards (JBoards bs) = bs"
| "asBoards _ = []"

fun asLists :: "collection \<Rightarrow> (string \<rightharpoonup> tlist list)" where
  "asLists (JLists m) = m"
| "asLists _ = Map.empty"

fun asCards :: "collection \<Rightarrow> (string \<rightharpoonup> card list)" where
  "asCards (JCards m) = m"
| "asCards _ = Map.empty"

text \<open>\<^verbatim>\<open>Array.prototype.findIndex\<close>: the first index that satisfies \<open>P\<close>, or \<open>-1\<close>.\<close>

fun findIndex :: "('a \<Rightarrow> bool) \<Rightarrow> 'a list \<Rightarrow> int" where
  "findIndex P [] = -1"
| "findIndex P (x # xs) =
     (if P x then 0 else (let i = findIndex P xs in if i < 0 then -1 else i + 1))"

definition storage_loadBoards :: "browser \<Rightarrow> board list \<times> browser" where
  "storage_loadBoards w = (case getData w BOARDS (JBoards []) of (c, w1) \<Rightarrow> (asBoards c, w1))"

definition storage_loadLists :: "browser \<Rightarrow> (string \<rightharpoonup> tlist list) \<times> browser" where
  "storage_loadLists w = (case getData w LISTS (JLists Map.empty) of (c, w1) \<Rightarrow> (asLists c, w1))"

definition storage_loadCards :: "browser \<Rightarrow> (string \<rightharpoonup> card list) \<times> browser" where
  "storage_loadCards w = (case getData w CARDS (JCards Map.empty) of (c, w1) \<Rightarrow> (asCards c, w1))"

text \<open>
  A \<^verbatim>\<open>Promise<void>\<close> of the service, settled: resolved, or rejected with the exception
  that its body threw. Either way the browser is as the body left it.
\<close>

datatype promise = Resolved browser | Rejected exn browser

fun after :: "promise \<Rightarrow> browser" where
  "after (Resolved w) = w"
| "after (Rejected e w) = w"

text \<open>
  The body shared by \<^verbatim>\<open>saveBoard\<close>, \<^verbatim>\<open>saveList\<close> and \<^verbatim>\<open>saveCard\<close>:
  \<^verbatim>\<open>findIndex\<close> by id, then assignment at that index or \<^verbatim>\<open>push\<close>.
\<close>

definition put_by_id :: "'a entity_scheme \<Rightarrow> 'a entity_scheme list \<Rightarrow> 'a entity_scheme list" where
  "put_by_id x xs =
     (let existingIndex = findIndex (\<lambda>y. ident y = ident x) xs
      in if existingIndex \<ge> 0 then xs[nat existingIndex := x] else xs @ [x])"

definition saveBoard :: "browser \<Rightarrow> board \<Rightarrow> promise" where
  "saveBoard w b =
     (case storage_loadBoards w of
        (bs, w1) \<Rightarrow> Resolved (setData w1 BOARDS (JBoards (put_by_id b bs))))"

definition saveList :: "browser \<Rightarrow> tlist \<Rightarrow> promise" where
  "saveList w l =
     (case storage_loadLists w of
        (listsData, w1) \<Rightarrow>
          (case array_of ''boardLists.findIndex'' (stored_or_empty listsData (boardId l)) of
             Inl e \<Rightarrow> Rejected e w1
           | Inr boardLists \<Rightarrow>
               Resolved (setData w1 LISTS
                 (JLists (set_stored listsData (boardId l) (put_by_id l boardLists))))))"

definition saveCard :: "browser \<Rightarrow> card \<Rightarrow> promise" where
  "saveCard w c =
     (case storage_loadCards w of
        (cardsData, w1) \<Rightarrow>
          (case array_of ''listCards.findIndex'' (stored_or_empty cardsData (listId c)) of
             Inl e \<Rightarrow> Rejected e w1
           | Inr listCards \<Rightarrow>
               Resolved (setData w1 CARDS
                 (JCards (set_stored cardsData (listId c) (put_by_id c listCards))))))"

definition deleteBoardData :: "browser \<Rightarrow> string \<Rightarrow> promise" where
  "deleteBoardData w bid =
     (case storage_loadLists w of
        (listsData, w1) \<Rightarrow>
          (case storage_loadCards w1 of
             (cardsData, w2) \<Rightarrow>
               (let listsData' = listsData(bid := None);
                    w3 = setData w2 LISTS (JLists listsData')
                in case array_of ''boardLists.forEach'' (stored_or_empty listsData' bid) of
                     Inl e \<Rightarrow> Rejected e w3
                   | Inr boardLists \<Rightarrow>
                       Resolved (setData w3 CARDS
                         (JCards (foldl (\<lambda>m l. m(ident l := None)) cardsData boardLists))))))"

definition storage_deleteBoard :: "browser \<Rightarrow> string \<Rightarrow> promise" where
  "storage_deleteBoard w bid =
     (case storage_loadBoards w of
        (bs, w1) \<Rightarrow>
          (let filteredBoards = filter (\<lambda>b. ident b \<noteq> bid) bs;
               w2 = setData w1 BOARDS (JBoards filteredBoards)
           in deleteBoardData w2 bid))"

definition deleteListCards :: "browser \<Rightarrow> string \<Rightarrow> promise" where
  "deleteListCards w lid =
     (case storage_loadCards w of
        (cardsData, w1) \<Rightarrow> Resolved (setData w1 CARDS (JCards (cardsData(lid := None)))))"

definition storage_deleteList :: "browser \<Rightarrow> string \<Rightarrow> string \<Rightarrow> promise" where
  "storage_deleteList w lid bid =
     (case storage_loadLists w of
        (listsData, w1) \<Rightarrow>
          (case array_of ''boardLists.filter'' (stored_or_empty listsData bid) of
             Inl e \<Rightarrow> Rejected e w1
           | Inr boardLists \<Rightarrow>
               (let filteredLists = filter (\<lambda>l. ident l \<noteq> lid) boardLists;
                    listsData' = (if length filteredLists = 0 then listsData(bid := None)
                                  else set_stored listsData bid filteredLists);
                    w2 = setData w1 LISTS (JLists listsData')
                in deleteListCards w2 lid)))"

definition storage_deleteCard :: "browser \<Rightarrow> string \<Rightarrow> string \<Rightarrow> promise" where
  "storage_deleteCard w cid lid =
     (case storage_loadCards w of
        (cardsData, w1) \<Rightarrow>
          (case array_of ''listCards.filter'' (stored_or_empty cardsData lid) of
             Inl e \<Rightarrow> Rejected e w1
           | Inr listCards \<Rightarrow>
               (let filteredCards = filter (\<lambda>c. ident c \<noteq> cid) listCards;
                    cardsData' = (if length filteredCards = 0 then cardsData(lid := None)
                                  else set_stored cardsData lid filteredCards)
                in Resolved (setData w1 CARDS (JCards cardsData')))))"

definition updateListPositions :: "browser \<Rightarrow> string \<Rightarrow> tlist list \<Rightarrow> promise" where
  "updateListPositions w bid ls =
     (case storage_loadLists w of
        (listsData, w1) \<Rightarrow> Resolved (setData w1 LISTS (JLists (set_stored listsData bid ls))))"

definition updateCardPositions :: "browser \<Rightarrow> string \<Rightarrow> card list \<Rightarrow> promise" where
  "updateCardPositions w lid cs =
     (case storage_loadCards w of
        (cardsData, w1) \<Rightarrow> Resolved (setData w1 CARDS (JCards (set_stored cardsData lid cs))))"

text \<open>
  \<^verbatim>\<open>clearAllData\<close> calls \<^verbatim>\<open>removeItem\<close> outside any \<^verbatim>\<open>try\<close>.
\<close>

definition clearAllData :: "browser \<Rightarrow> promise" where
  "clearAllData w =
     (case isStorageAvailable w of
        (False, w1) \<Rightarrow> Resolved w1
      | (True, w1) \<Rightarrow>
          (case removeItem w1 BOARDS of
             Inl e \<Rightarrow> Rejected e w1
           | Inr w2 \<Rightarrow>
               (case removeItem w2 LISTS of
                  Inl e \<Rightarrow> Rejected e w2
                | Inr w3 \<Rightarrow>
                    (case removeItem w3 CARDS of
                       Inl e \<Rightarrow> Rejected e w3
                     | Inr w4 \<Rightarrow> Resolved w4))))"

section \<open>Ordering (utils)\<close>

text \<open>
  Modelled from the spec: \<^verbatim>\<open>reorder\<close> is imported from the utils module, which is not
  among the sources. The spec (4.1): it removes the element at \<open>fromIndex\<close> and reinserts
  it at \<open>toIndex\<close> (clamped to \<open>[0, length-1]\<close>), preserving all other relative
  orderings; the result has the length of the input. The spec says nothing about a
  \<open>fromIndex\<close> outside the sequence; the sequence is returned as it is then, which is what
  the length contract leaves.
\<close>

definition reorder :: "'a list \<Rightarrow> int \<Rightarrow> int \<Rightarrow> 'a list" where
  "reorder xs fromIndex toIndex =
     (if 0 \<le> fromIndex \<and> fromIndex < int (length xs) then
        (let i = nat fromIndex;
             removed = xs ! i;
             rest = take i xs @ drop (Suc i) xs;
             k = nat (max 0 (min toIndex (int (length xs) - 1)))
         in take k rest @ [removed] @ drop k rest)
      else xs)"

text \<open>
  The position update that the store writes inline after a reorder or a move:
  \<^verbatim>\<open>xs.map((x, index) => ({ ...x, position: index }))\<close>.
\<close>

definition renumber :: "'a placed_scheme list \<Rightarrow> 'a placed_scheme list" where
  "renumber xs = map (\<lambda>(x, index). x\<lparr>position := index\<rparr>) (zip xs [0..<length xs])"

text \<open>
  \<^verbatim>\<open>xs.splice(start, 0, x)\<close> on a copy: a negative \<open>start\<close> counts from the end, and
  the start is clamped to \<open>[0, length]\<close>.
\<close>

definition splice_insert :: "'a list \<Rightarrow> int \<Rightarrow> 'a \<Rightarrow> 'a list" where
  "splice_insert xs start x =
     (let len = int (length xs);
          k = nat (if start < 0 then max (len + start) 0 else min start len)
      in take k xs @ [x] @ drop k xs)"

section \<open>The store (store actions)\<close>

text \<open>
  An action takes the store's state and the browser and returns both. The values that
  \<^verbatim>\<open>generateId()\<close> and each \<^verbatim>\<open>new Date()\<close> return are parameters.
\<close>

type_synonym world = "app_state \<times> browser"

text \<open>
  The \<^verbatim>\<open>catch\<close> handlers: those of the saving actions also reset \<^verbatim>\<open>saving\<close>. Every
  exception of the model is an \<^verbatim>\<open>Error\<close>, so the slot receives its message and the
  fallback text of the handler (\<^verbatim>\<open>'Failed to ...'\<close>) is not used.
\<close>

definition catch_saving :: "app_state \<Rightarrow> browser \<Rightarrow> exn \<Rightarrow> world" where
  "catch_saving st w e =
     (st\<lparr>loading := (loading st)\<lparr>saving := False, error := Some (message w e)\<rparr>\<rparr>, w)"

definition catch_error :: "app_state \<Rightarrow> browser \<Rightarrow> exn \<Rightarrow> world" where
  "catch_error st w e = (st\<lparr>loading := (loading st)\<lparr>error := Some (message w e)\<rparr>\<rparr>, w)"

text \<open>
  \<^verbatim>\<open>StorageService.loadBoards\<close> is \<^verbatim>\<open>getData\<close>, which catches whatever localStorage
  and \<^verbatim>\<open>JSON.parse\<close> throw: its promise always resolves, and the \<^verbatim>\<open>catch\<close> handler
  of \<open>loadBoards\<close> has nothing to catch.
\<close>

definition loadBoards :: "world \<Rightarrow> world" where
  "loadBoards = (\<lambda>(st, w).
     (let st1 = st\<lparr>loading := (loading st)\<lparr>loading_boards := True, error := None\<rparr>\<rparr>
      in case storage_loadBoards w of
           (bs, w1) \<Rightarrow>
             (st1\<lparr>boards := bs, loading := (loading st1)\<lparr>loading_boards := False\<rparr>\<rparr>, w1)))"

definition deleteBoard :: "string \<Rightarrow> world \<Rightarrow> world" where
  "deleteBoard bid = (\<lambda>(st, w).
     (let st1 = st\<lparr>loading := (loading st)\<lparr>saving := True, error := None\<rparr>\<rparr>
      in case storage_deleteBoard w bid of
           Rejected e w1 \<Rightarrow> catch_saving st1 w1 e
         | Resolved w1 \<Rightarrow>
             (st1\<lparr>boards := filter (\<lambda>b. ident b \<noteq> bid) (boards st1),
                  lists := (lists st1)(bid \<mapsto> Undef),
                  currentBoard :=
                    (if currentBoard st1 = Some bid then None else currentBoard st1),
                  loading := (loading st1)\<lparr>saving := False\<rparr>\<rparr>, w1)))"

definition deleteList :: "string \<Rightarrow> string \<Rightarrow> world \<Rightarrow> world" where
  "deleteList lid bid = (\<lambda>(st, w).
     (let st1 = st\<lparr>loading := (loading st)\<lparr>saving := True, error := None\<rparr>\<rparr>
      in case storage_deleteList w lid bid of
           Rejected e w1 \<Rightarrow> catch_saving st1 w1 e
         | Resolved w1 \<Rightarrow>
             (case array_of ''state.lists[boardId]?.filter'' (state_or_empty (lists st1) bid) of
                Inl e \<Rightarrow> catch_saving st1 w1 e
              | Inr ls \<Rightarrow>
                  (st1\<lparr>lists := (lists st1)(bid \<mapsto> Arr (filter (\<lambda>l. ident l \<noteq> lid) ls)),
                       cards := (cards st1)(lid \<mapsto> Undef),
                       loading := (loading st1)\<lparr>saving := False\<rparr>\<rparr>, w1))))"

text \<open>
  Modelled from the spec: where \<^verbatim>\<open>state.lists[boardId] || []\<close> is an inherited member,
  the source hands \<^verbatim>\<open>reorder\<close> a value that is no sequence. The utils module is not
  among the sources and the spec gives \<open>reorder\<close> a meaning on sequences only; the model
  takes the call to throw a TypeError there, which the handler of the action catches. The
  same holds for \<open>reorderCards\<close> below.
\<close>

definition reorderLists :: "string \<Rightarrow> int \<Rightarrow> int \<Rightarrow> world \<Rightarrow> world" where
  "reorderLists bid startIndex endIndex = (\<lambda>(st, w).
     (case array_of ''reorder'' (state_or_empty (lists st) bid) of
        Inl e \<Rightarrow> catch_error st w e
      | Inr ls \<Rightarrow>
          (let reorderedLists = reorder ls startIndex endIndex;
               updatedLists = renumber reorderedLists
           in case updateListPositions w bid updatedLists of
                Rejected e w1 \<Rightarrow> catch_error st w1 e
              | Resolved w1 \<Rightarrow> (st\<lparr>lists := (lists st)(bid \<mapsto> Arr updatedLists)\<rparr>, w1))))"

text \<open>\<open>data\<close> is the \<^verbatim>\<open>CreateCardData\<close>: title, description and listId.\<close>

record create_card_data =
  data_title :: string
  data_description :: string
  data_listId :: string

text \<open>
  \<open>createdNow\<close> and \<open>updatedNow\<close> are the two \<^verbatim>\<open>new Date()\<close> of the card literal. The
  state is read a second time inside the \<^verbatim>\<open>set\<close> callback, where the spread of an
  inherited member throws inside the \<^verbatim>\<open>try\<close> block.
\<close>

definition createCard :: "create_card_data \<Rightarrow> string \<Rightarrow> int \<Rightarrow> int \<Rightarrow> world \<Rightarrow> world" where
  "createCard data newId createdNow updatedNow = (\<lambda>(st, w).
     (let st1 = st\<lparr>loading := (loading st)\<lparr>saving := True, error := None\<rparr>\<rparr>;
          listCards = state_or_empty (cards st1) (data_listId data);
          c = \<lparr>ident = newId, title = data_title data,
               createdAt = DateObj createdNow, updatedAt = DateObj updatedNow,
               position = js_length listCards,
               listId = data_listId data, details = data_description data\<rparr>
      in case saveCard w c of
           Rejected e w1 \<Rightarrow> catch_saving st1 w1 e
         | Resolved w1 \<Rightarrow>
             (case array_of ''...(state.cards[data.listId] || [])''
                     (state_or_empty (cards st1) (data_listId data)) of
                Inl e \<Rightarrow> catch_saving st1 w1 e
              | Inr cs \<Rightarrow>
                  (st1\<lparr>cards := (cards st1)(data_listId data \<mapsto> Arr (cs @ [c])),
                       loading := (loading st1)\<lparr>saving := False\<rparr>\<rparr>, w1))))"

definition deleteCard :: "string \<Rightarrow> string \<Rightarrow> world \<Rightarrow> world" where
  "deleteCard cid lid = (\<lambda>(st, w).
     (let st1 = st\<lparr>loading := (loading st)\<lparr>saving := True, error := None\<rparr>\<rparr>
      in case storage_deleteCard w cid lid of
           Rejected e w1 \<Rightarrow> catch_saving st1 w1 e
         | Resolved w1 \<Rightarrow>
             (case array_of ''state.cards[listId]?.filter'' (state_or_empty (cards st1) lid) of
                Inl e \<Rightarrow> catch_saving st1 w1 e
              | Inr cs \<Rightarrow>
                  (st1\<lparr>cards := (cards st1)(lid \<mapsto> Arr (filter (\<lambda>c. ident c \<noteq> cid) cs)),
                       loading := (loading st1)\<lparr>saving := False\<rparr>\<rparr>, w1))))"

text \<open>
  \<^verbatim>\<open>Promise.all([updateCardPositions(s, ...), updateCardPositions(d, ...)])\<close>: each
  call runs up to its \<^verbatim>\<open>await this.loadCards()\<close> when it is called, so both reads of
  the stored cards happen before either write; then the two continuations write in
  order, each from the snapshot it read.
\<close>

definition updateCardPositions_all ::
  "browser \<Rightarrow> string \<Rightarrow> card list \<Rightarrow> string \<Rightarrow> card list \<Rightarrow> promise" where
  "updateCardPositions_all w s scs d dcs =
     (case storage_loadCards w of
        (cardsData1, w1) \<Rightarrow>
          (case storage_loadCards w1 of
             (cardsData2, w2) \<Rightarrow>
               (let w3 = setData w2 CARDS (JCards (set_stored cardsData1 s scs))
                in Resolved (setData w3 CARDS (JCards (set_stored cardsData2 d dcs))))))"

definition moveCard :: "string \<Rightarrow> string \<Rightarrow> string \<Rightarrow> int \<Rightarrow> int \<Rightarrow> world \<Rightarrow> world" where
  "moveCard cardId sourceListId destListId destIndex now = (\<lambda>(st, w).
     (case array_of ''sourceCards.find'' (state_or_empty (cards st) sourceListId) of
        Inl e \<Rightarrow> catch_error st w e
      | Inr sourceCards \<Rightarrow>
          (case find (\<lambda>c. ident c = cardId) sourceCards of
             None \<Rightarrow> catch_error st w (Error ''Card not found'')
           | Some cardToMove \<Rightarrow>
               (case array_of ''...destCards'' (state_or_empty (cards st) destListId) of
                  Inl e \<Rightarrow> catch_error st w e
                | Inr destCards \<Rightarrow>
                    (let newSourceCards = filter (\<lambda>c. ident c \<noteq> cardId) sourceCards;
                         updatedCard = cardToMove\<lparr>listId := destListId, updatedAt := DateObj now\<rparr>;
                         newDestCards = splice_insert destCards destIndex updatedCard;
                         updatedSourceCards = renumber newSourceCards;
                         updatedDestCards = renumber newDestCards
                     in case updateCardPositions_all w sourceListId updatedSourceCards
                               destListId updatedDestCards of
                          Rejected e w1 \<Rightarrow> catch_error st w1 e
                        | Resolved w1 \<Rightarrow>
                            (st\<lparr>cards := (cards st)(sourceListId \<mapsto> Arr updatedSourceCards,
                                                     destListId \<mapsto> Arr updatedDestCards)\<rparr>,
                             w1))))))"

definition reorderCards :: "string \<Rightarrow> int \<Rightarrow> int \<Rightarrow> world \<Rightarrow> world" where
  "reorderCards lid startIndex endIndex = (\<lambda>(st, w).
     (case array_of ''reorder'' (state_or_empty (cards st) lid) of
        Inl e \<Rightarrow> catch_error st w e
      | Inr cs \<Rightarrow>
          (let reorderedCards = reorder cs startIndex endIndex;
               updatedCards = renumber reorderedCards
           in case updateCardPositions w lid updatedCards of
                Rejected e w1 \<Rightarrow> catch_error st w1 e
              | Resolved w1 \<Rightarrow> (st\<lparr>cards := (cards st)(lid \<mapsto> Arr updatedCards)\<rparr>, w1))))"

section \<open>The drag handler of the Board component (components/Board.tsx)\<close>

datatype drag_type = DragList | DragCard

text \<open>
  \<open>over_listId\<close> is \<^verbatim>\<open>over.data.current?.listId\<close>; every draggable of the source
  carries \<^verbatim>\<open>type\<close> and \<^verbatim>\<open>listId\<close> in its data.
\<close>

record over_target =
  over_id :: string
  over_type :: "drag_type option"
  over_listId :: "string option"

record drag_end_event =
  active_id :: string
  active_type :: "drag_type option"
  active_listId :: string
  over :: "over_target option"

text \<open>
  The handler reads \<^verbatim>\<open>lists\<close> and \<^verbatim>\<open>cards\<close> of the store's state. An exception
  thrown in the handler rejects its promise, which nothing catches: the state stays as
  it is. \<^verbatim>\<open>sortedLists\<close> is computed when the component renders; where the spread
  \<^verbatim>\<open>[...boardLists]\<close> throws there, there is no rendered board to drag on.
\<close>

definition handleDragEnd :: "string \<Rightarrow> int \<Rightarrow> drag_end_event \<Rightarrow> world \<Rightarrow> world" where
  "handleDragEnd bid now event = (\<lambda>(st, w).
     (case over event of
        None \<Rightarrow> (st, w)
      | Some ov \<Rightarrow>
          if active_id event = over_id ov then (st, w)
          else if active_type event = Some DragList then
            (case array_of ''...boardLists'' (state_or_empty (lists st) bid) of
               Inl e \<Rightarrow> (st, w)
             | Inr boardLists \<Rightarrow>
                 (let sortedLists = sort_key position boardLists;
                      oldIndex = findIndex (\<lambda>l. ident l = active_id event) sortedLists;
                      newIndex = findIndex (\<lambda>l. ident l = over_id ov) sortedLists
                  in if oldIndex \<noteq> newIndex then reorderLists bid oldIndex newIndex (st, w)
                     else (st, w)))
          else if active_type event = Some DragCard then
            (let activeListId = active_listId event;
                 overListId = (case over_listId ov of
                                 None \<Rightarrow> over_id ov
                               | Some l \<Rightarrow> if l = [] then over_id ov else l)
             in if activeListId = overListId then
                  (case array_of ''listCards.findIndex''
                          (state_or_empty (cards st) activeListId) of
                     Inl e \<Rightarrow> (st, w)
                   | Inr listCards \<Rightarrow>
                       (let oldIndex = findIndex (\<lambda>c. ident c = active_id event) listCards;
                            newIndex = findIndex (\<lambda>c. ident c = over_id ov) listCards
                        in if oldIndex \<noteq> newIndex
                           then reorderCards activeListId oldIndex newIndex (st, w)
                           else (st, w)))
                else
                  (case array_of ''sourceCards.findIndex''
                          (state_or_empty (cards st) activeListId) of
                     Inl e \<Rightarrow> (st, w)
                   | Inr sourceCards \<Rightarrow>
                       (let destCards = state_or_empty (cards st) overListId
                        in if over_type ov = Some DragCard then
                             (case array_of ''destCards.findIndex'' destCards of
                                Inl e \<Rightarrow> (st, w)
                              | Inr dcs \<Rightarrow>
                                  moveCard (active_id event) activeListId overListId
                                    (findIndex (\<lambda>c. ident c = over_id ov) dcs) now (st, w))
                           else
                             moveCard (active_id event) activeListId overListId
                               (int (js_length destCards)) now (st, w))))
          else (st, w)))"

section \<open>Notions of the specification\<close>

text \<open>The lists or cards that a Record of the state holds under a key: none when it holds no array.\<close>

fun orEmpty :: "'a slot option \<Rightarrow> 'a list" where
  "orEmpty (Some (Arr xs)) = xs"
| "orEmpty _ = []"

text \<open>The dense-position invariant of the data model: the positions are 0 .. m-1.\<close>

definition dense_positions :: "'a placed_scheme list \<Rightarrow> bool" where
  "dense_positions xs \<longleftrightarrow> sort (map position xs) = [0..<length xs]"

section \<open>Concrete browsers and states\<close>

text \<open>
  An engine's messages; browsers: one whose localStorage is disabled, an empty one that
  accepts everything, an empty one whose quota is used up (it takes the probe's item and
  refuses every other write), one whose boards item is damaged, one that holds a board with a list
  of two cards, and one that holds the cards of two lists. States: two lists with the
  cards \<open>[X, Y]\<close> and \<open>[Z]\<close>; a single board; the board with its list and cards.
\<close>

definition engine_text :: "exn \<Rightarrow> string" where
  "engine_text e =
     (case e of
        TypeError what \<Rightarrow> ''TypeError at '' @ what
      | Error m \<Rightarrow> m
      | SecurityError \<Rightarrow> ''The operation is insecure.''
      | QuotaExceededError \<Rightarrow> ''The quota has been exceeded.''
      | SyntaxError \<Rightarrow> ''Unexpected token'')"

definition blocked_browser :: browser where
  "blocked_browser =
     \<lparr>items = Map.empty, disabled = True, rejects = (\<lambda>k v. False), describe = engine_text,
      console = []\<rparr>"

definition open_browser :: browser where
  "open_browser =
     \<lparr>items = Map.empty, disabled = False, rejects = (\<lambda>k v. False), describe = engine_text,
      console = []\<rparr>"

definition full_browser :: browser where
  "full_browser =
     \<lparr>items = Map.empty, disabled = False, rejects = (\<lambda>k v. k \<noteq> testKey),
      describe = engine_text, console = []\<rparr>"

definition damaged_browser :: browser where
  "damaged_browser =
     \<lparr>items = [BOARDS \<mapsto> Damaged], disabled = False, rejects = (\<lambda>k v. False),
      describe = engine_text, console = []\<rparr>"

definition board1 :: board where
  "board1 = \<lparr>ident = ''b1'', title = ''Backlog'', createdAt = DateObj 1000,
              updatedAt = DateObj 1000, description = '''', color = ''blue''\<rparr>"

definition list1 :: tlist where
  "list1 = \<lparr>ident = ''l1'', title = ''To Do'', createdAt = DateObj 5, updatedAt = Undefined,
             position = 0, boardId = ''b1''\<rparr>"

definition cardX :: card where
  "cardX = \<lparr>ident = ''x'', title = ''X'', createdAt = DateObj 10, updatedAt = DateObj 10,
             position = 0, listId = ''l1'', details = ''''\<rparr>"

definition cardY :: card where
  "cardY = \<lparr>ident = ''y'', title = ''Y'', createdAt = DateObj 20, updatedAt = DateObj 20,
             position = 1, listId = ''l1'', details = ''''\<rparr>"

definition cardZ :: card where
  "cardZ = \<lparr>ident = ''z'', title = ''Z'', createdAt = DateObj 30, updatedAt = DateObj 30,
             position = 0, listId = ''l2'', details = ''''\<rparr>"

text \<open>A card whose list id is the name of a member that every object inherits.\<close>

definition cardC :: card where
  "cardC = \<lparr>ident = ''c'', title = ''C'', createdAt = DateObj 40, updatedAt = DateObj 40,
             position = 0, listId = ''constructor'', details = ''''\<rparr>"

definition idle :: loading_state where
  "idle = \<lparr>loading_boards = False, saving = False, error = None\<rparr>"

definition two_lists_state :: app_state where
  "two_lists_state =
     \<lparr>boards = [], lists = Map.empty,
      cards = [''l1'' \<mapsto> Arr [cardX, cardY], ''l2'' \<mapsto> Arr [cardZ]],
      currentBoard = None, loading = idle\<rparr>"

definition two_lists_browser :: browser where
  "two_lists_browser =
     \<lparr>items = [CARDS \<mapsto> JSON_stringify (JCards [''l1'' \<mapsto> [cardX, cardY], ''l2'' \<mapsto> [cardZ]])],
      disabled = False, rejects = (\<lambda>k v. False), describe = engine_text, console = []\<rparr>"

definition drop_on_own_list :: drag_end_event where
  "drop_on_own_list =
     \<lparr>active_id = ''x'', active_type = Some DragCard, active_listId = ''l1'',
      over = Some \<lparr>over_id = ''y'', over_type = Some DragCard, over_listId = Some ''l1''\<rparr>\<rparr>"

definition new_card_data :: create_card_data where
  "new_card_data = \<lparr>data_title = ''N'', data_description = '''', data_listId = ''l1''\<rparr>"

definition odd_card_data :: create_card_data where
  "odd_card_data =
     \<lparr>data_title = ''N'', data_description = '''', data_listId = ''constructor''\<rparr>"

definition one_board_state :: app_state where
  "one_board_state =
     \<lparr>boards = [board1], lists = Map.empty, cards = Map.empty,
      currentBoard = None, loading = idle\<rparr>"

definition kanban_state :: app_state where
  "kanban_state =
     \<lparr>boards = [board1], lists = [''b1'' \<mapsto> Arr [list1]],
      cards = [''l1'' \<mapsto> Arr [cardX, cardY]],
      currentBoard = Some ''b1'', loading = idle\<rparr>"

definition kanban_browser :: browser where
  "kanban_browser =
     \<lparr>items = [BOARDS \<mapsto> JSON_stringify (JBoards [board1]),
               LISTS \<mapsto> JSON_stringify (JLists [''b1'' \<mapsto> [list1]]),
               CARDS \<mapsto> JSON_stringify (JCards [''l1'' \<mapsto> [cardX, cardY]])],
      disabled = False, rejects = (\<lambda>k v. False), describe = engine_text, console = []\<rparr>"

section \<open>The availability probe, the keys and the accessors\<close>

lemma isStorageAvailable_eq:
  "isStorageAvailable w =
     (if disabled w \<or> rejects w testKey TestText then (False, w)
      else (True, w\<lparr>items := (items w)(testKey := None)\<rparr>))"
  by (simp add: isStorageAvailable_def setItem_def removeItem_def)

lemma keys_distinct:
  "BOARDS \<noteq> testKey" "LISTS \<noteq> testKey" "CARDS \<noteq> testKey"
  "BOARDS \<noteq> LISTS" "BOARDS \<noteq> CARDS" "LISTS \<noteq> CARDS"
  by (simp_all add: BOARDS_def LISTS_def CARDS_def testKey_def)

lemma ordinary_keys:
  "''l1'' \<notin> set object_prototype_keys" "''l2'' \<notin> set object_prototype_keys"
  "''b1'' \<notin> set object_prototype_keys" "''constructor'' \<in> set object_prototype_keys"
  by (simp_all add: object_prototype_keys_def)

lemmas storage_defs =
  storage_loadBoards_def storage_loadLists_def storage_loadCards_def
  saveBoard_def saveList_def saveCard_def deleteBoardData_def storage_deleteBoard_def
  deleteListCards_def storage_deleteList_def storage_deleteCard_def
  updateListPositions_def updateCardPositions_def updateCardPositions_all_def
  getData_def setData_def isStorageAvailable_eq getItem_def setItem_def
  console_warn_def console_error_def stored_or_empty_def set_stored_def
  stringify_record_def put_by_id_def Let_def

lemma toJSON_idem: "toJSON (toJSON t) = toJSON t"
  by (cases t) simp_all

lemma stringify_entity_idem: "stringify_entity (stringify_entity e) = stringify_entity e"
  by (simp add: stringify_entity_def toJSON_idem)

section \<open>Cascade on board deletion\<close>

lemma deleteBoard_resolved:
  assumes "storage_deleteBoard w bid = Resolved w1"
  shows "deleteBoard bid (st, w) =
     (st\<lparr>boards := filter (\<lambda>b. ident b \<noteq> bid) (boards st),
         lists := (lists st)(bid \<mapsto> Undef),
         currentBoard := (if currentBoard st = Some bid then None else currentBoard st),
         loading := (loading st)\<lparr>saving := False, error := None\<rparr>\<rparr>, w1)"
  using assms by (simp add: deleteBoard_def Let_def)

lemma kanban_deleteBoard_resolves:
  "storage_deleteBoard kanban_browser ''b1'' = Resolved (after (storage_deleteBoard kanban_browser ''b1''))"
  by (simp add: storage_defs kanban_browser_def keys_distinct keys_distinct[symmetric]
        ordinary_keys)

lemma kanban_deleteBoard_cards:
  "fst (storage_loadCards (after (storage_deleteBoard kanban_browser ''b1''))) ''l1'' =
     Some [stringify_entity cardX, stringify_entity cardY]"
  by (simp add: storage_defs kanban_browser_def keys_distinct keys_distinct[symmetric]
        ordinary_keys stringify_entity_idem)

lemma kanban_deleteBoard_lists:
  "fst (storage_loadLists (after (storage_deleteBoard kanban_browser ''b1''))) ''b1'' = None"
  by (simp add: storage_defs kanban_browser_def keys_distinct keys_distinct[symmetric]
        ordinary_keys)

lemma kanban_deleteList_cards:
  "cards (fst (deleteList ''l1'' ''b1'' (kanban_state, kanban_browser))) ''l1'' = Some Undef"
  by (simp add: deleteList_def storage_defs kanban_browser_def kanban_state_def
        state_or_empty_def keys_distinct keys_distinct[symmetric] ordinary_keys)

text \<open>
  C1. The claim: after \<open>deleteBoard\<close> no list of the board and no card of its lists
  remains, in memory or in storage. What the code does for a board \<open>b1\<close> with the list
  \<open>l1\<close> holding two cards: the board and its lists go, in memory (where the key keeps
  the value \<^verbatim>\<open>undefined\<close>) and in storage, but the cards under \<open>l1\<close> stay in both.
  \<open>deleteBoardData\<close> reads \<^verbatim>\<open>listsData[boardId]\<close> after deleting that key, so it
  loops over no list; the store action does not touch \<open>cards\<close> at all (\<open>deleteList\<close>
  clears \<open>cards[id]\<close>).
\<close>

theorem deleteBoard_leaves_cards:
  "boards (fst (deleteBoard ''b1'' (kanban_state, kanban_browser))) = [] \<and>
   lists (fst (deleteBoard ''b1'' (kanban_state, kanban_browser))) ''b1'' = Some Undef \<and>
   fst (storage_loadLists (snd (deleteBoard ''b1'' (kanban_state, kanban_browser)))) ''b1'' = None \<and>
   cards (fst (deleteBoard ''b1'' (kanban_state, kanban_browser))) ''l1'' = Some (Arr [cardX, cardY]) \<and>
   fst (storage_loadCards (snd (deleteBoard ''b1'' (kanban_state, kanban_browser)))) ''l1'' =
     Some [stringify_entity cardX, stringify_entity cardY] \<and>
   cards (fst (deleteList ''l1'' ''b1'' (kanban_state, kanban_browser))) ''l1'' = Some Undef"
  unfolding deleteBoard_resolved[OF kanban_deleteBoard_resolves] kanban_deleteList_cards
  by (simp add: kanban_deleteBoard_cards kanban_deleteBoard_lists kanban_state_def board1_def)

section \<open>Dense positions\<close>

lemma renumber_two: "renumber [a, b] = [a\<lparr>position := 0\<rparr>, b\<lparr>position := 1\<rparr>]"
  by (simp add: renumber_def upt_rec)

lemma renumber_one: "renumber [a] = [a\<lparr>position := 0\<rparr>]"
  by (simp add: renumber_def)

lemma two_lists_cards:
  "cards two_lists_state ''l1'' = Some (Arr [cardX, cardY])"
  "cards two_lists_state ''l2'' = Some (Arr [cardZ])"
  by (simp_all add: two_lists_state_def)

lemma two_lists_after_delete:
  "cards (fst (deleteCard ''x'' ''l1'' (two_lists_state, open_browser))) ''l1'' = Some (Arr [cardY])"
  by (simp add: deleteCard_def storage_defs open_browser_def two_lists_state_def
        state_or_empty_def ordinary_keys keys_distinct keys_distinct[symmetric]
        cardX_def cardY_def)

lemma two_lists_created_after_delete:
  "cards (fst (createCard new_card_data ''n'' 50 50
       (deleteCard ''x'' ''l1'' (two_lists_state, open_browser)))) ''l1'' =
     Some (Arr [cardY,
        \<lparr>ident = ''n'', title = ''N'', createdAt = DateObj 50, updatedAt = DateObj 50,
         position = 1, listId = ''l1'', details = ''''\<rparr>])"
  by (simp add: createCard_def deleteCard_def storage_defs open_browser_def two_lists_state_def
        state_or_empty_def ordinary_keys keys_distinct keys_distinct[symmetric]
        new_card_data_def cardX_def cardY_def)

lemma two_lists_moved:
  "cards (fst (moveCard ''x'' ''l1'' ''l2'' 0 99 (two_lists_state, open_browser))) ''l1'' =
     Some (Arr [cardY\<lparr>position := 0\<rparr>])"
  by (simp add: moveCard_def storage_defs open_browser_def two_lists_state_def
        state_or_empty_def ordinary_keys keys_distinct keys_distinct[symmetric]
        cardX_def cardY_def renumber_one)

text \<open>
  C2. The claim: after every store operation the positions within a list are 0 .. m-1.
  What the code does: \<open>deleteCard\<close> filters the card out and does not renumber. From the
  dense list \<open>[X, Y]\<close>, deleting \<open>X\<close> leaves \<open>Y\<close> at position 1; a \<open>createCard\<close>
  after that takes position = length = 1 as well. The removal inside \<open>moveCard\<close> does
  renumber its source list.
\<close>

theorem deleteCard_leaves_gap:
  "dense_positions [cardX, cardY] \<and>
   cards (fst (deleteCard ''x'' ''l1'' (two_lists_state, open_browser))) ''l1'' = Some (Arr [cardY]) \<and>
   map position [cardY] = [1] \<and>
   \<not> dense_positions (orEmpty (cards (fst (deleteCard ''x'' ''l1'' (two_lists_state, open_browser))) ''l1'')) \<and>
   map position (orEmpty (cards (fst (createCard new_card_data ''n'' 50 50
       (deleteCard ''x'' ''l1'' (two_lists_state, open_browser)))) ''l1'')) = [1, 1] \<and>
   dense_positions (orEmpty (cards (fst (moveCard ''x'' ''l1'' ''l2'' 0 99
       (two_lists_state, open_browser))) ''l1''))"
  unfolding two_lists_after_delete two_lists_created_after_delete two_lists_moved
  by (simp add: dense_positions_def cardX_def cardY_def)

section \<open>Stored timestamps\<close>

text \<open>
  C7. The claim: the timestamps of a saved Board, List or Card come back as dates. What
  the code does: \<open>getData\<close> converts the date strings only when the parsed value is an
  array. The boards item is an array and a board comes back as saved; the lists and cards
  items are objects keyed by parent id, so a saved card or list is loaded with its
  \<open>createdAt\<close> (and \<open>updatedAt\<close>) still the ISO string.
\<close>

theorem stored_card_timestamps_stay_strings:
  "createdAt cardX = DateObj 10 \<and>
   fst (storage_loadCards (after (saveCard open_browser cardX))) ''l1'' =
     Some [cardX\<lparr>createdAt := IsoString 10, updatedAt := IsoString 10\<rparr>] \<and>
   fst (storage_loadLists (after (saveList open_browser list1))) ''b1'' =
     Some [list1\<lparr>createdAt := IsoString 5\<rparr>] \<and>
   fst (storage_loadBoards (after (saveBoard open_browser board1))) = [board1]"
proof -
  have c: "fst (storage_loadCards (after (saveCard open_browser cardX))) ''l1'' =
     Some [cardX\<lparr>createdAt := IsoString 10, updatedAt := IsoString 10\<rparr>]"
    by (simp add: storage_defs open_browser_def keys_distinct keys_distinct[symmetric]
        ordinary_keys stringify_entity_def cardX_def)
  have l: "fst (storage_loadLists (after (saveList open_browser list1))) ''b1'' =
     Some [list1\<lparr>createdAt := IsoString 5\<rparr>]"
    by (simp add: storage_defs open_browser_def keys_distinct keys_distinct[symmetric]
        ordinary_keys stringify_entity_def list1_def)
  have b: "fst (storage_loadBoards (after (saveBoard open_browser board1))) = [board1]"
    by (simp add: storage_defs open_browser_def keys_distinct keys_distinct[symmetric]
        stringify_entity_def revive_def board1_def)
  have d: "createdAt cardX = DateObj 10" by (simp add: cardX_def)
  from d c l b show ?thesis by blast
qed

section \<open>A card created while the write fails\<close>

text \<open>
  C3. The claim: when the persistence write of a \<open>createCard\<close> call fails, the cards of
  that list in memory stay as they were and the error slot receives a message. What the code
  does: \<open>createCard\<close> awaits \<open>saveCard\<close> inside a \<^verbatim>\<open>try\<close> whose handler sets the
  error and appends nothing, and that is what happens when \<open>saveCard\<close> rejects (the last
  two conjuncts: a list id that names an inherited member). But a store that is unavailable
  and a write that the browser refuses never reach that handler: \<open>setData\<close> catches the
  failure and logs it, \<open>saveCard\<close> resolves, and the store appends the card in memory
  with the error slot empty while nothing has been stored.
\<close>

theorem createCard_appends_when_write_fails:
  "items (snd (createCard new_card_data ''n'' 50 51 (two_lists_state, blocked_browser))) = Map.empty \<and>
   console (snd (createCard new_card_data ''n'' 50 51 (two_lists_state, blocked_browser))) =
     [Warn ''LocalStorage is not available'', Warn ''LocalStorage is not available''] \<and>
   cards (fst (createCard new_card_data ''n'' 50 51 (two_lists_state, blocked_browser))) ''l1'' =
     Some (Arr [cardX, cardY,
        \<lparr>ident = ''n'', title = ''N'', createdAt = DateObj 50, updatedAt = DateObj 51,
         position = 2, listId = ''l1'', details = ''''\<rparr>]) \<and>
   error (loading (fst (createCard new_card_data ''n'' 50 51 (two_lists_state, blocked_browser)))) = None \<and>
   items (snd (createCard new_card_data ''n'' 50 51 (two_lists_state, full_browser))) = Map.empty \<and>
   console (snd (createCard new_card_data ''n'' 50 51 (two_lists_state, full_browser))) =
     [Err ''Error writing to localStorage for key trello_cards:'' QuotaExceededError] \<and>
   cards (fst (createCard new_card_data ''n'' 50 51 (two_lists_state, full_browser))) ''l1'' =
     Some (Arr [cardX, cardY,
        \<lparr>ident = ''n'', title = ''N'', createdAt = DateObj 50, updatedAt = DateObj 51,
         position = 2, listId = ''l1'', details = ''''\<rparr>]) \<and>
   error (loading (fst (createCard new_card_data ''n'' 50 51 (two_lists_state, full_browser)))) = None \<and>
   cards (fst (createCard odd_card_data ''n'' 50 51 (two_lists_state, open_browser))) =
     cards two_lists_state \<and>
   error (loading (fst (createCard odd_card_data ''n'' 50 51 (two_lists_state, open_browser)))) =
     Some ''TypeError at listCards.findIndex''"
  by (simp add: createCard_def storage_defs blocked_browser_def full_browser_def open_browser_def
        two_lists_state_def new_card_data_def odd_card_data_def state_or_empty_def
        ordinary_keys keys_distinct keys_distinct[symmetric] catch_saving_def message_def
        engine_text_def member_length_def idle_def CARDS_def testKey_def)

section \<open>Moving a card between two lists\<close>

lemma two_lists_stored_before:
  "fst (storage_loadCards two_lists_browser) ''l1'' =
     Some [stringify_entity cardX, stringify_entity cardY]"
  "fst (storage_loadCards two_lists_browser) ''l2'' = Some [stringify_entity cardZ]"
  by (simp_all add: storage_defs two_lists_browser_def keys_distinct keys_distinct[symmetric])

lemma two_lists_moved_memory:
  "cards (fst (moveCard ''x'' ''l1'' ''l2'' 0 99 (two_lists_state, two_lists_browser))) ''l1'' =
     Some (Arr [cardY\<lparr>position := 0\<rparr>])"
  "cards (fst (moveCard ''x'' ''l1'' ''l2'' 0 99 (two_lists_state, two_lists_browser))) ''l2'' =
     Some (Arr [cardX\<lparr>listId := ''l2'', updatedAt := DateObj 99, position := 0\<rparr>,
                cardZ\<lparr>position := 1\<rparr>])"
  by (simp_all add: moveCard_def storage_defs two_lists_browser_def two_lists_state_def
        state_or_empty_def ordinary_keys keys_distinct keys_distinct[symmetric]
        cardX_def cardY_def cardZ_def renumber_one renumber_two splice_insert_def)

lemma two_lists_moved_stored:
  "fst (storage_loadCards (snd (moveCard ''x'' ''l1'' ''l2'' 0 99
         (two_lists_state, two_lists_browser)))) ''l1'' =
     Some [stringify_entity cardX, stringify_entity cardY]"
  "fst (storage_loadCards (snd (moveCard ''x'' ''l1'' ''l2'' 0 99
         (two_lists_state, two_lists_browser)))) ''l2'' =
     Some [stringify_entity (cardX\<lparr>listId := ''l2'', updatedAt := DateObj 99, position := 0\<rparr>),
           stringify_entity (cardZ\<lparr>position := 1\<rparr>)]"
  by (simp_all add: moveCard_def storage_defs two_lists_browser_def two_lists_state_def
        state_or_empty_def ordinary_keys keys_distinct keys_distinct[symmetric]
        cardX_def cardY_def cardZ_def renumber_one renumber_two splice_insert_def
        stringify_entity_def)

text \<open>
  C4. The claim: with \<open>L1 = [X, Y]\<close> and \<open>L2 = [Z]\<close>, moving \<open>X\<close> to index 0 of
  \<open>L2\<close> yields \<open>L1 = [Y]\<close> (position 0) and \<open>L2 = [X, Z]\<close> (positions 0, 1), and the
  two lists together keep their number of cards. What the code does: in memory, this. In
  storage, the two \<open>updateCardPositions\<close> calls under \<^verbatim>\<open>Promise.all\<close> both read the
  cards item before either writes, and the second writes the Record that it read with only
  the destination replaced: the stored \<open>L1\<close> is still \<open>[X, Y]\<close>, the stored \<open>L2\<close> is
  \<open>[X, Z]\<close>, four cards where there were three, and no error is set.
\<close>

theorem moveCard_stored_source_not_updated:
  "cards (fst (moveCard ''x'' ''l1'' ''l2'' 0 99 (two_lists_state, two_lists_browser))) ''l1'' =
     Some (Arr [cardY\<lparr>position := 0\<rparr>]) \<and>
   cards (fst (moveCard ''x'' ''l1'' ''l2'' 0 99 (two_lists_state, two_lists_browser))) ''l2'' =
     Some (Arr [cardX\<lparr>listId := ''l2'', updatedAt := DateObj 99, position := 0\<rparr>,
                cardZ\<lparr>position := 1\<rparr>]) \<and>
   fst (storage_loadCards two_lists_browser) ''l1'' =
     Some [stringify_entity cardX, stringify_entity cardY] \<and>
   fst (storage_loadCards two_lists_browser) ''l2'' = Some [stringify_entity cardZ] \<and>
   fst (storage_loadCards (snd (moveCard ''x'' ''l1'' ''l2'' 0 99
         (two_lists_state, two_lists_browser)))) ''l1'' =
     Some [stringify_entity cardX, stringify_entity cardY] \<and>
   fst (storage_loadCards (snd (moveCard ''x'' ''l1'' ''l2'' 0 99
         (two_lists_state, two_lists_browser)))) ''l2'' =
     Some [stringify_entity (cardX\<lparr>listId := ''l2'', updatedAt := DateObj 99, position := 0\<rparr>),
           stringify_entity (cardZ\<lparr>position := 1\<rparr>)] \<and>
   error (loading (fst (moveCard ''x'' ''l1'' ''l2'' 0 99 (two_lists_state, two_lists_browser)))) = None"
proof -
  have e: "error (loading (fst (moveCard ''x'' ''l1'' ''l2'' 0 99
             (two_lists_state, two_lists_browser)))) = None"
    by (simp add: moveCard_def storage_defs two_lists_browser_def two_lists_state_def
        state_or_empty_def ordinary_keys keys_distinct keys_distinct[symmetric]
        cardX_def cardY_def cardZ_def idle_def)
  show ?thesis
    unfolding two_lists_moved_memory two_lists_moved_stored two_lists_stored_before e
    by simp
qed

section \<open>The service while the store is unavailable\<close>

lemma getData_unavailable:
  "disabled w \<or> rejects w testKey TestText \<Longrightarrow>
     getData w key d = (d, console_warn w ''LocalStorage is not available'')"
  by (simp add: getData_def isStorageAvailable_eq)

lemma setData_unavailable:
  "disabled w \<or> rejects w testKey TestText \<Longrightarrow>
     setData w key d = console_warn w ''LocalStorage is not available''"
  by (simp add: setData_def isStorageAvailable_eq)

lemma setData_refused:
  "\<not> disabled w \<Longrightarrow> \<not> rejects w testKey TestText \<Longrightarrow> rejects w key (JSON_stringify d) \<Longrightarrow>
     items (setData w key d) = (items w)(testKey := None) \<and>
     console (setData w key d) =
       console w @ [Err (''Error writing to localStorage for key '' @ key @ '':'') QuotaExceededError]"
  by (simp add: setData_def isStorageAvailable_eq setItem_def console_error_def)

lemma console_warn_fields:
  "disabled (console_warn w m) = disabled w" "items (console_warn w m) = items w"
  "rejects (console_warn w m) = rejects w"
  by (simp_all add: console_warn_def)

lemma saveCard_unavailable:
  assumes "disabled w"
  shows "saveCard w c =
     (if listId c \<in> set object_prototype_keys
      then Rejected (TypeError ''listCards.findIndex'')
             (console_warn w ''LocalStorage is not available'')
      else Resolved (console_warn (console_warn w ''LocalStorage is not available'')
             ''LocalStorage is not available''))"
  using assms
  by (simp add: saveCard_def storage_loadCards_def getData_unavailable setData_unavailable
        stored_or_empty_def console_warn_fields)

text \<open>
  C6. The claim: while the backing store is unavailable no call of the service throws;
  every read returns the default and every write is dropped and reported. What the code
  does: \<open>getData\<close> and \<open>setData\<close> catch whatever localStorage throws, so a loader
  returns its default, a save under an ordinary key resolves with nothing stored and the
  failure on the console, and \<open>clearAllData\<close> returns. But \<open>saveCard\<close>, \<open>saveList\<close>,
  \<open>deleteCard\<close> and \<open>deleteList\<close> call an array method on \<^verbatim>\<open>data[key] || []\<close>, where
  \<open>data\<close> is then the default \<^verbatim>\<open>{}\<close>: for a key that names an inherited member
  (\<^verbatim>\<open>constructor\<close>, \<^verbatim>\<open>toString\<close>, \<^verbatim>\<open>valueOf\<close>) that value is a function, the call
  throws a TypeError and the promise is rejected.
\<close>

theorem saveCard_throws_when_unavailable:
  "saveCard blocked_browser cardC =
     Rejected (TypeError ''listCards.findIndex'')
       (console_warn blocked_browser ''LocalStorage is not available'') \<and>
   saveList blocked_browser (list1\<lparr>boardId := ''toString''\<rparr>) =
     Rejected (TypeError ''boardLists.findIndex'')
       (console_warn blocked_browser ''LocalStorage is not available'') \<and>
   storage_deleteCard blocked_browser ''c'' ''constructor'' =
     Rejected (TypeError ''listCards.filter'')
       (console_warn blocked_browser ''LocalStorage is not available'') \<and>
   storage_deleteList blocked_browser ''l1'' ''valueOf'' =
     Rejected (TypeError ''boardLists.filter'')
       (console_warn blocked_browser ''LocalStorage is not available'') \<and>
   saveCard full_browser cardC = Rejected (TypeError ''listCards.findIndex'') full_browser \<and>
   saveCard blocked_browser cardX =
     Resolved (blocked_browser\<lparr>console :=
       [Warn ''LocalStorage is not available'', Warn ''LocalStorage is not available'']\<rparr>) \<and>
   saveCard full_browser cardX =
     Resolved (full_browser\<lparr>console :=
       [Err ''Error writing to localStorage for key trello_cards:'' QuotaExceededError]\<rparr>) \<and>
   storage_loadCards blocked_browser =
     (Map.empty, console_warn blocked_browser ''LocalStorage is not available'') \<and>
   clearAllData blocked_browser = Resolved blocked_browser"
  by (simp add: storage_defs clearAllData_def blocked_browser_def full_browser_def
        object_prototype_keys_def cardC_def cardX_def list1_def
        CARDS_def LISTS_def testKey_def)

section \<open>Loading the boards when the read fails\<close>

text \<open>
  C8. The claim: when the read of a \<open>loadBoards\<close> call fails, the error slot is set and
  the boards in memory stay as they were. What the code does: \<open>loadBoards\<close> has the
  \<^verbatim>\<open>catch\<close> handler that would do so, but \<open>getData\<close> catches the failure first, logs
  it and returns the default: with a boards item that does not parse, and with localStorage
  disabled, the promise resolves with \<open>[]\<close>, the store replaces its board by that, and the
  error slot stays empty.
\<close>

theorem loadBoards_wipes_boards_when_read_fails:
  "boards one_board_state = [board1] \<and>
   boards (fst (loadBoards (one_board_state, damaged_browser))) = [] \<and>
   error (loading (fst (loadBoards (one_board_state, damaged_browser)))) = None \<and>
   console (snd (loadBoards (one_board_state, damaged_browser))) =
     [Err ''Error reading from localStorage for key trello_boards:'' SyntaxError] \<and>
   boards (fst (loadBoards (one_board_state, blocked_browser))) = [] \<and>
   error (loading (fst (loadBoards (one_board_state, blocked_browser)))) = None \<and>
   console (snd (loadBoards (one_board_state, blocked_browser))) =
     [Warn ''LocalStorage is not available'']"
  by (simp add: loadBoards_def storage_defs damaged_browser_def blocked_browser_def
        one_board_state_def idle_def BOARDS_def testKey_def)

section \<open>Saving by id\<close>

lemma saveCard_inherited_key:
  assumes "listId c \<in> set object_prototype_keys"
    and "fst (storage_loadCards w) (listId c) = None"
  shows "saveCard w c = Rejected (TypeError ''listCards.findIndex'') (snd (storage_loadCards w))"
proof (cases "storage_loadCards w")
  case (Pair cardsData w1)
  with assms have "cardsData (listId c) = None" by simp
  with assms(1) Pair show ?thesis by (simp add: saveCard_def stored_or_empty_def)
qed

text \<open>
  C10. The claim: for every entity, \<open>saveBoard\<close>, \<open>saveList\<close> and \<open>saveCard\<close> replace
  the stored entity of the same id at its index, or else append at the tail, and leave the
  others as they are. What the code does: where the cards item holds \<open>[X, Y]\<close> under
  \<open>l1\<close>, saving a card with the id of \<open>X\<close> gives \<open>[X2, Y]\<close> and saving one with a
  new id gives \<open>[X, Y, Z]\<close>. But for a card whose \<open>listId\<close> names an inherited member
  and is no key of the stored Record, \<^verbatim>\<open>cardsData[card.listId] || []\<close> is that member,
  \<^verbatim>\<open>findIndex\<close> is no function of it, and the call throws: nothing is appended, nothing
  is stored. The same holds for \<open>saveList\<close> and such a \<open>boardId\<close>.
\<close>

theorem saveCard_rejects_inherited_list_id:
  "saveCard open_browser cardC = Rejected (TypeError ''listCards.findIndex'') open_browser \<and>
   saveList open_browser (list1\<lparr>boardId := ''constructor''\<rparr>) =
     Rejected (TypeError ''boardLists.findIndex'') open_browser \<and>
   fst (storage_loadCards (after (saveCard open_browser cardC))) = Map.empty \<and>
   fst (storage_loadCards kanban_browser) ''l1'' =
     Some [stringify_entity cardX, stringify_entity cardY] \<and>
   fst (storage_loadCards (after (saveCard kanban_browser (cardX\<lparr>title := ''X2''\<rparr>)))) ''l1'' =
     Some [stringify_entity (cardX\<lparr>title := ''X2''\<rparr>), stringify_entity cardY] \<and>
   fst (storage_loadCards (after (saveCard kanban_browser (cardZ\<lparr>listId := ''l1''\<rparr>)))) ''l1'' =
     Some [stringify_entity cardX, stringify_entity cardY,
           stringify_entity (cardZ\<lparr>listId := ''l1''\<rparr>)]"
proof -
  have r: "saveCard open_browser cardC = Rejected (TypeError ''listCards.findIndex'') open_browser"
    "saveList open_browser (list1\<lparr>boardId := ''constructor''\<rparr>) =
     Rejected (TypeError ''boardLists.findIndex'') open_browser"
    by (simp_all add: storage_defs open_browser_def object_prototype_keys_def cardC_def list1_def)
  have e: "fst (storage_loadCards open_browser) = Map.empty"
    by (simp add: storage_defs open_browser_def)
  have k: "fst (storage_loadCards kanban_browser) ''l1'' =
     Some [stringify_entity cardX, stringify_entity cardY]"
    by (simp add: storage_defs kanban_browser_def keys_distinct keys_distinct[symmetric])
  have k1: "fst (storage_loadCards (after (saveCard kanban_browser (cardX\<lparr>title := ''X2''\<rparr>)))) ''l1'' =
     Some [stringify_entity (cardX\<lparr>title := ''X2''\<rparr>), stringify_entity cardY]"
    by (simp add: storage_defs kanban_browser_def keys_distinct keys_distinct[symmetric]
          ordinary_keys stringify_entity_def cardX_def cardY_def)
  have k2: "fst (storage_loadCards (after (saveCard kanban_browser (cardZ\<lparr>listId := ''l1''\<rparr>)))) ''l1'' =
     Some [stringify_entity cardX, stringify_entity cardY,
           stringify_entity (cardZ\<lparr>listId := ''l1''\<rparr>)]"
    by (simp add: storage_defs kanban_browser_def keys_distinct keys_distinct[symmetric]
          ordinary_keys stringify_entity_def cardX_def cardY_def cardZ_def)
  show ?thesis unfolding r k k1 k2 by (simp add: e)
qed

section \<open>A drop on the card's own list\<close>

lemma map_ident_renumber: "map ident (renumber xs) = map ident xs"
proof -
  have "map ident (renumber xs) = map (ident \<circ> fst) (zip xs [0..<length xs])"
    by (simp add: renumber_def comp_def case_prod_beta)
  also have "\<dots> = map ident (map fst (zip xs [0..<length xs]))"
    by (simp only: map_map)
  also have "\<dots> = map ident xs"
    by (simp only: map_fst_zip length_upt diff_zero)
  finally show ?thesis .
qed

lemma mset_reorder_any: "mset (reorder xs a b) = mset xs"
proof (cases "0 \<le> a \<and> a < int (length xs)")
  case True
  define rest where "rest = take (nat a) xs @ drop (Suc (nat a)) xs"
  define k where "k = nat (max 0 (min b (int (length xs) - 1)))"
  from True have lt: "nat a < length xs" by linarith
  have "reorder xs a b = take k rest @ [xs ! nat a] @ drop k rest"
    using True by (simp only: reorder_def Let_def rest_def k_def simp_thms if_True)
  then have "mset (reorder xs a b) = mset (take k rest @ drop k rest) + {#xs ! nat a#}"
    by (simp only: mset_append mset.simps) simp
  also have "\<dots> = mset (take (nat a) xs @ [xs ! nat a] @ drop (Suc (nat a)) xs)"
    by (simp only: append_take_drop_id rest_def mset_append mset.simps) simp
  also have "\<dots> = mset xs"
    using lt by (metis append_Cons append_Nil id_take_nth_drop)
  finally show ?thesis .
next
  case False
  then have "reorder xs a b = xs"
    by (simp only: reorder_def if_False)
  then show ?thesis by simp
qed

lemma state_or_empty_cases:
  "state_or_empty m k = Array (orEmpty (m k)) \<or>
   (state_or_empty m k = Member k \<and> orEmpty (m k) = [])"
proof (cases "m k")
  case None
  then show ?thesis by (simp add: state_or_empty_def)
next
  case (Some s)
  then show ?thesis by (cases s) (simp_all add: state_or_empty_def)
qed

lemma reorderCards_member:
  assumes "state_or_empty (cards st) lid = Member k"
  shows "cards (fst (reorderCards lid a b (st, w))) = cards st"
  using assms by (simp add: reorderCards_def catch_error_def)

lemma reorderCards_array:
  assumes "state_or_empty (cards st) lid = Array cs"
  shows "cards (fst (reorderCards lid a b (st, w))) =
           (cards st)(lid \<mapsto> Arr (renumber (reorder cs a b)))"
  using assms
  by (simp add: reorderCards_def updateCardPositions_def Let_def split: prod.splits)

lemma reorderCards_ids:
  "mset (map ident (orEmpty (cards (fst (reorderCards lid a b (st, w))) l))) =
   mset (map ident (orEmpty (cards st l)))"
proof -
  from state_or_empty_cases[of "cards st" lid]
  consider (arr) "state_or_empty (cards st) lid = Array (orEmpty (cards st lid))"
    | (mem) "state_or_empty (cards st) lid = Member lid"
    by blast
  then show ?thesis
  proof cases
    case arr
    note r = reorderCards_array[OF arr, of a b w]
    show ?thesis
    proof (cases "l = lid")
      case True
      have "mset (map ident (renumber (reorder (orEmpty (cards st lid)) a b))) =
              image_mset ident (mset (reorder (orEmpty (cards st lid)) a b))"
        by (simp only: map_ident_renumber mset_map)
      also have "\<dots> = mset (map ident (orEmpty (cards st lid)))"
        by (simp only: mset_reorder_any mset_map)
      finally show ?thesis using True by (simp add: r)
    next
      case False
      then show ?thesis by (simp add: r)
    qed
  next
    case mem
    show ?thesis by (simp only: reorderCards_member[OF mem])
  qed
qed

lemma handleDragEnd_same_list:
  assumes "over event = Some ov" and "active_id event \<noteq> over_id ov"
    and "active_type event = Some DragCard"
    and "(case over_listId ov of None \<Rightarrow> over_id ov
          | Some l \<Rightarrow> if l = [] then over_id ov else l) = active_listId event"
  shows "handleDragEnd bid now event (st, w) =
           (if findIndex (\<lambda>c. ident c = active_id event) (orEmpty (cards st (active_listId event)))
               \<noteq> findIndex (\<lambda>c. ident c = over_id ov) (orEmpty (cards st (active_listId event)))
            then reorderCards (active_listId event)
                   (findIndex (\<lambda>c. ident c = active_id event) (orEmpty (cards st (active_listId event))))
                   (findIndex (\<lambda>c. ident c = over_id ov) (orEmpty (cards st (active_listId event))))
                   (st, w)
            else (st, w))"
proof -
  from state_or_empty_cases[of "cards st" "active_listId event"]
  consider (arr) "state_or_empty (cards st) (active_listId event) =
                    Array (orEmpty (cards st (active_listId event)))"
    | (mem) "state_or_empty (cards st) (active_listId event) = Member (active_listId event)"
            "orEmpty (cards st (active_listId event)) = []"
    by blast
  then show ?thesis
  proof cases
    case arr
    with assms show ?thesis by (simp add: handleDragEnd_def Let_def)
  next
    case mem
    with assms show ?thesis by (simp add: handleDragEnd_def Let_def)
  qed
qed

text \<open>
  C5, as amended. When a card is dropped on a target of its own list
  (\<^verbatim>\<open>activeListId === overListId\<close>), it is the drag handler of the Board component that
  sees the equality and calls \<open>reorderCards\<close> (or nothing, when the two indices agree),
  never \<open>moveCard\<close>; every list then holds each card id as often as before. The store's
  \<open>moveCard\<close> does not compare its two list ids.
\<close>

theorem same_list_drop_is_reordered:
  "over event = Some ov \<and> active_id event \<noteq> over_id ov \<and>
   active_type event = Some DragCard \<and>
   (case over_listId ov of None \<Rightarrow> over_id ov
    | Some l \<Rightarrow> if l = [] then over_id ov else l) = active_listId event \<longrightarrow>
     handleDragEnd bid now event (st, w) =
       (if findIndex (\<lambda>c. ident c = active_id event) (orEmpty (cards st (active_listId event)))
           \<noteq> findIndex (\<lambda>c. ident c = over_id ov) (orEmpty (cards st (active_listId event)))
        then reorderCards (active_listId event)
               (findIndex (\<lambda>c. ident c = active_id event) (orEmpty (cards st (active_listId event))))
               (findIndex (\<lambda>c. ident c = over_id ov) (orEmpty (cards st (active_listId event))))
               (st, w)
        else (st, w)) \<and>
     (\<forall>l. mset (map ident (orEmpty (cards (fst (handleDragEnd bid now event (st, w))) l))) =
          mset (map ident (orEmpty (cards st l))))"
proof (intro impI)
  assume a: "over event = Some ov \<and> active_id event \<noteq> over_id ov \<and>
   active_type event = Some DragCard \<and>
   (case over_listId ov of None \<Rightarrow> over_id ov
    | Some l \<Rightarrow> if l = [] then over_id ov else l) = active_listId event"
  then have a1: "over event = Some ov" and a2: "active_id event \<noteq> over_id ov"
    and a3: "active_type event = Some DragCard"
    and a4: "(case over_listId ov of None \<Rightarrow> over_id ov
              | Some l \<Rightarrow> if l = [] then over_id ov else l) = active_listId event"
    by blast+
  note eq = handleDragEnd_same_list[OF a1 a2 a3 a4, of bid now st w]
  have "\<forall>l. mset (map ident (orEmpty (cards (fst (handleDragEnd bid now event (st, w))) l))) =
          mset (map ident (orEmpty (cards st l)))"
  proof (intro allI)
    fix l
    show "mset (map ident (orEmpty (cards (fst (handleDragEnd bid now event (st, w))) l))) =
          mset (map ident (orEmpty (cards st l)))"
    proof (cases "findIndex (\<lambda>c. ident c = active_id event) (orEmpty (cards st (active_listId event)))
           \<noteq> findIndex (\<lambda>c. ident c = over_id ov) (orEmpty (cards st (active_listId event)))")
      case True
      with eq have "handleDragEnd bid now event (st, w) =
        reorderCards (active_listId event)
               (findIndex (\<lambda>c. ident c = active_id event) (orEmpty (cards st (active_listId event))))
               (findIndex (\<lambda>c. ident c = over_id ov) (orEmpty (cards st (active_listId event))))
               (st, w)"
        by (simp only: simp_thms if_True)
      then show ?thesis by (simp only: reorderCards_ids)
    next
      case False
      with eq have "handleDragEnd bid now event (st, w) = (st, w)"
        by (simp only: simp_thms if_False)
      then show ?thesis by (simp only: fst_conv)
    qed
  qed
  with eq show "handleDragEnd bid now event (st, w) =
       (if findIndex (\<lambda>c. ident c = active_id event) (orEmpty (cards st (active_listId event)))
           \<noteq> findIndex (\<lambda>c. ident c = over_id ov) (orEmpty (cards st (active_listId event)))
        then reorderCards (active_listId event)
               (findIndex (\<lambda>c. ident c = active_id event) (orEmpty (cards st (active_listId event))))
               (findIndex (\<lambda>c. ident c = over_id ov) (orEmpty (cards st (active_listId event))))
               (st, w)
        else (st, w)) \<and>
     (\<forall>l. mset (map ident (orEmpty (cards (fst (handleDragEnd bid now event (st, w))) l))) =
          mset (map ident (orEmpty (cards st l))))"
    by blast
qed

lemma two_lists_l1: "orEmpty (cards two_lists_state ''l1'') = [cardX, cardY]"
  by (simp add: two_lists_state_def)

lemma two_lists_l1_looked_up:
  "state_or_empty (cards two_lists_state) ''l1'' = Array [cardX, cardY]"
  by (simp add: two_lists_state_def state_or_empty_def)

lemma reorder_two_cards: "reorder [cardX, cardY] 0 1 = [cardY, cardX]"
  by (simp add: reorder_def Let_def)

lemma reorderCards_two_lists:
  "cards (fst (reorderCards ''l1'' 0 1 (two_lists_state, open_browser))) ''l1'' =
     Some (Arr [cardY\<lparr>position := 0\<rparr>, cardX\<lparr>position := 1\<rparr>])"
  by (simp add: reorderCards_array[OF two_lists_l1_looked_up] reorder_two_cards renumber_two)

theorem same_list_drop_is_reordered_witness:
  "cards (fst (handleDragEnd ''b1'' 99 drop_on_own_list (two_lists_state, open_browser))) ''l1'' =
     Some (Arr [cardY\<lparr>position := 0\<rparr>, cardX\<lparr>position := 1\<rparr>]) \<and>
   mset (map ident (orEmpty (cards (fst (handleDragEnd ''b1'' 99 drop_on_own_list
                                          (two_lists_state, open_browser))) ''l1''))) =
     {#''x'', ''y''#}"
proof -
  have h: "over drop_on_own_list =
             Some \<lparr>over_id = ''y'', over_type = Some DragCard, over_listId = Some ''l1''\<rparr> \<and>
           active_id drop_on_own_list \<noteq>
             over_id \<lparr>over_id = ''y'', over_type = Some DragCard, over_listId = Some ''l1''\<rparr> \<and>
           active_type drop_on_own_list = Some DragCard \<and>
           (case over_listId \<lparr>over_id = ''y'', over_type = Some DragCard, over_listId = Some ''l1''\<rparr> of
              None \<Rightarrow> over_id \<lparr>over_id = ''y'', over_type = Some DragCard, over_listId = Some ''l1''\<rparr>
            | Some l \<Rightarrow> if l = [] then over_id \<lparr>over_id = ''y'', over_type = Some DragCard,
                                                  over_listId = Some ''l1''\<rparr> else l) =
           active_listId drop_on_own_list"
    by (simp add: drop_on_own_list_def)
  note t = same_list_drop_is_reordered
      [where event = drop_on_own_list
         and ov = "\<lparr>over_id = ''y'', over_type = Some DragCard, over_listId = Some ''l1''\<rparr>"
         and bid = "''b1''" and now = 99 and st = two_lists_state and w = open_browser,
       rule_format, OF h]
  have ix: "findIndex (\<lambda>c. ident c = ''x'') [cardX, cardY] = 0"
           "findIndex (\<lambda>c. ident c = ''y'') [cardX, cardY] = 1"
    by (simp_all add: cardX_def cardY_def)
  have af: "active_id drop_on_own_list = ''x''" "active_listId drop_on_own_list = ''l1''"
    "over_id \<lparr>over_id = ''y'', over_type = Some DragCard, over_listId = Some ''l1''\<rparr> = ''y''"
    by (simp_all add: drop_on_own_list_def)
  from t[THEN conjunct1]
  have e: "handleDragEnd ''b1'' 99 drop_on_own_list (two_lists_state, open_browser) =
                    reorderCards ''l1'' 0 1 (two_lists_state, open_browser)"
    unfolding af two_lists_l1 ix by simp
  from t have m: "mset (map ident (orEmpty (cards (fst (handleDragEnd ''b1'' 99 drop_on_own_list
                                          (two_lists_state, open_browser))) ''l1''))) =
                  mset (map ident (orEmpty (cards two_lists_state ''l1'')))"
    by blast
  show ?thesis
    unfolding m unfolding e reorderCards_two_lists
    by (simp add: two_lists_l1 cardX_def cardY_def)
qed

theorem moveCard_same_list_counterexample:
  "cards (fst (moveCard ''x'' ''l1'' ''l1'' 1 99 (two_lists_state, open_browser))) ''l1'' =
     Some (Arr [cardX\<lparr>position := 0\<rparr>,
           cardX\<lparr>listId := ''l1'', updatedAt := DateObj 99, position := 1\<rparr>,
           cardY\<lparr>position := 2\<rparr>]) \<and>
   length (filter (\<lambda>c. ident c = ''x'')
     (orEmpty (cards (fst (moveCard ''x'' ''l1'' ''l1'' 1 99 (two_lists_state, open_browser))) ''l1''))) = 2 \<and>
   cards (fst (reorderCards ''l1'' 0 1 (two_lists_state, open_browser))) ''l1'' =
     Some (Arr [cardY\<lparr>position := 0\<rparr>, cardX\<lparr>position := 1\<rparr>])"
proof -
  have r3: "renumber [cardX, cardX\<lparr>listId := ''l1'', updatedAt := DateObj 99\<rparr>, cardY] =
              [cardX\<lparr>position := 0\<rparr>,
               cardX\<lparr>listId := ''l1'', updatedAt := DateObj 99, position := 1\<rparr>,
               cardY\<lparr>position := 2\<rparr>]"
    by (simp add: renumber_def upt_conv_Cons)
  have m: "cards (fst (moveCard ''x'' ''l1'' ''l1'' 1 99 (two_lists_state, open_browser))) ''l1'' =
     Some (Arr [cardX\<lparr>position := 0\<rparr>,
           cardX\<lparr>listId := ''l1'', updatedAt := DateObj 99, position := 1\<rparr>,
           cardY\<lparr>position := 2\<rparr>])"
    by (simp add: moveCard_def updateCardPositions_all_def two_lists_l1_looked_up Let_def
          splice_insert_def cardX_def cardY_def renumber_def upt_conv_Cons
          split: prod.splits)
  show ?thesis
    unfolding m reorderCards_two_lists by (simp add: cardX_def cardY_def)
qed

section \<open>Laws of reorder\<close>

lemma reorder_nat:
  assumes "i < length xs" and "j < length xs"
  shows "reorder xs (int i) (int j) =
           take j (take i xs @ drop (Suc i) xs) @ [xs ! i] @ drop j (take i xs @ drop (Suc i) xs)"
proof -
  have "nat (max 0 (min (int j) (int (length xs) - 1))) = j"
    using assms by simp
  then show ?thesis using assms by (simp add: reorder_def Let_def)
qed

lemma reinsert_same:
  assumes "i < length xs"
  shows "take i (take i xs @ drop (Suc i) xs) @ [xs ! i] @ drop i (take i xs @ drop (Suc i) xs) = xs"
proof -
  have "take i (take i xs @ drop (Suc i) xs) = take i xs"
    using assms by simp
  moreover have "drop i (take i xs @ drop (Suc i) xs) = drop (Suc i) xs"
    using assms by simp
  ultimately show ?thesis
    using assms by (metis append_Cons append_Nil id_take_nth_drop)
qed

lemma reorder_same: "i < length xs \<Longrightarrow> reorder xs (int i) (int i) = xs"
  by (simp only: reorder_nat reinsert_same)

lemma mset_reorder:
  assumes "i < length xs" and "j < length xs"
  shows "mset (reorder xs (int i) (int j)) = mset xs"
proof -
  let ?rest = "take i xs @ drop (Suc i) xs"
  have "mset (take j ?rest @ [xs ! i] @ drop j ?rest) = mset (take j ?rest @ drop j ?rest) + {#xs ! i#}"
    by (simp only: mset_append mset.simps) simp
  also have "\<dots> = mset (take i xs @ [xs ! i] @ drop (Suc i) xs)"
    by (simp only: append_take_drop_id mset_append mset.simps) simp
  also have "\<dots> = mset xs"
    using assms(1) by (metis append_Cons append_Nil id_take_nth_drop)
  finally show ?thesis using assms by (simp only: reorder_nat)
qed

lemma length_reinsert: "length (take k ys @ [x] @ drop k ys) = Suc (length ys)"
proof -
  have "length (take k ys @ drop k ys) = length ys"
    by (simp only: append_take_drop_id)
  then show ?thesis by simp
qed

lemma length_reorder: "length (reorder xs a b) = length xs"
proof (cases "0 \<le> a \<and> a < int (length xs)")
  case True
  define rest where "rest = take (nat a) xs @ drop (Suc (nat a)) xs"
  define k where "k = nat (max 0 (min b (int (length xs) - 1)))"
  from True have "nat a < length xs" by linarith
  then have lr: "Suc (length rest) = length xs"
    by (simp add: rest_def)
  have "reorder xs a b = take k rest @ [xs ! nat a] @ drop k rest"
    using True by (simp only: reorder_def Let_def rest_def k_def simp_thms if_True)
  then show ?thesis
    using lr by (simp only: length_reinsert)
next
  case False
  then have "reorder xs a b = xs"
    by (simp only: reorder_def if_False)
  then show ?thesis by simp
qed

lemma reorder_back:
  assumes "i < length xs" and "j < length xs"
  shows "reorder (reorder xs (int i) (int j)) (int j) (int i) = xs"
proof -
  let ?rest = "take i xs @ drop (Suc i) xs"
  let ?ys = "take j ?rest @ [xs ! i] @ drop j ?rest"
  have lr: "length ?rest = length xs - 1" using assms by simp
  have jl: "j \<le> length ?rest" using assms lr by linarith
  have ltj: "length (take j ?rest) = j" using jl by simp
  have ly: "length ?ys = length xs" using assms lr by simp
  have nthj: "?ys ! j = xs ! i"
    using ltj by (metis append_Cons nth_append_length)
  have tk: "take j ?ys = take j ?rest"
    using ltj by (metis append_eq_conv_conj)
  have dr: "drop (Suc j) ?ys = drop j ?rest"
  proof -
    have "drop (Suc j) ?ys = drop (Suc j - j) ([xs ! i] @ drop j ?rest)"
      using ltj by (metis Suc_n_not_le_n drop_append drop_all nat_le_linear append_Nil ltj)
    then show ?thesis by simp
  qed
  have "reorder ?ys (int j) (int i) =
          take i (take j ?ys @ drop (Suc j) ?ys) @ [?ys ! j] @ drop i (take j ?ys @ drop (Suc j) ?ys)"
    using assms ly by (intro reorder_nat) simp_all
  also have "\<dots> = take i ?rest @ [xs ! i] @ drop i ?rest"
    unfolding tk dr nthj by (simp only: append_take_drop_id)
  also have "\<dots> = xs" using assms(1) by (rule reinsert_same)
  finally show ?thesis using assms by (simp only: reorder_nat)
qed

text \<open>
  C9. For every sequence \<open>S\<close> and valid indices \<open>i\<close>, \<open>j\<close>: \<open>reorder S i i\<close> is \<open>S\<close>;
  \<open>reorder S i j\<close> has the same multiset of elements as \<open>S\<close> (and its length); and
  when \<open>i \<noteq> j\<close>, reordering the result with the indices swapped gives \<open>S\<close> back.
\<close>

theorem reorder_laws:
  assumes "0 \<le> i" and "i < int (length S)" and "0 \<le> j" and "j < int (length S)"
  shows "reorder S i i = S \<and>
         mset (reorder S i j) = mset S \<and>
         length (reorder S i j) = length S \<and>
         (i \<noteq> j \<longrightarrow> reorder (reorder S i j) j i = S)"
proof -
  from assms obtain a b where i: "i = int a" and j: "j = int b"
    and a: "a < length S" and b: "b < length S"
    by (metis nonneg_int_cases of_nat_less_iff)
  show ?thesis
    unfolding i j using a b
    by (simp add: reorder_same mset_reorder length_reorder reorder_back)
qed

theorem reorder_laws_witness:
  "reorder ''abcd'' 1 1 = ''abcd'' \<and>
   reorder ''abcd'' 0 2 = ''bcad'' \<and>
   mset (reorder ''abcd'' 0 2) = mset ''abcd'' \<and>
   reorder (reorder ''abcd'' 0 2) 2 0 = ''abcd''"
proof -
  have h: "(0::int) \<le> 0" "(0::int) < int (length ''abcd'')" "(0::int) \<le> 2"
    "(2::int) < int (length ''abcd'')" "(0::int) \<le> 1" "(1::int) < int (length ''abcd'')"
    by simp_all
  have d: "(0::int) \<noteq> 2" by simp
  note t1 = reorder_laws [OF h(5) h(6) h(5) h(6)]
  note t2 = reorder_laws [OF h(1) h(2) h(3) h(4)]
  have c: "reorder ''abcd'' 0 2 = ''bcad''"
    by (simp add: reorder_def Let_def)
  from t1 t2 d c show ?thesis by blast
qed

end
